theory Spec2Isabelle
  imports Main "HOL-Library.Char_ord" "HOL-Library.List_Lexorder" "HOL-Library.Multiset"
begin

section \<open>Backend data model (TECH.md, "Core Data Model")\<close>

text \<open>
  \<^verbatim>\<open>pub enum LetterState { Unknown, Correct, Misplaced, Absent }\<close>
\<close>

datatype LetterState = Unknown | Correct | Misplaced | Absent

text \<open>
  \<^verbatim>\<open>pub struct Letter { pub character: char, pub state: LetterState }\<close>
\<close>

record Letter =
  character :: char
  state :: LetterState

text \<open>
  \<^verbatim>\<open>pub struct Word { letters: [Letter; 5] }\<close>
  The array is a list; \<^verbatim>\<open>Word::new\<close> builds it with five letters.
\<close>

type_synonym Word = "Letter list"

text \<open>
  \<^verbatim>\<open>
  fn convert_letter_state(state: &str) -> LetterState {
      match state {
          "correct" => LetterState::Correct,
          "misplaced" => LetterState::Misplaced,
          "absent" => LetterState::Absent,
          _ => LetterState::Unknown,
      }
  }\<close>
\<close>

definition convert_letter_state :: "string \<Rightarrow> LetterState" where
  "convert_letter_state s =
     (if s = ''correct'' then Correct
      else if s = ''misplaced'' then Misplaced
      else if s = ''absent'' then Absent
      else Unknown)"

section \<open>Word construction\<close>

text \<open>
  The error of a failed construction. The source's \<^verbatim>\<open>Err\<close> carries a message
  string; the specification names the error \<open>InvalidWord\<close>.
\<close>

datatype word_error = InvalidWord

text \<open>
  Modelled from the spec: the test for an alphabetic character, which the printed part
  of \<^verbatim>\<open>Word::new\<close> elides. The alphabet is the single one the specification fixes,
  \<open>a\<close> to \<open>z\<close> in either case.
\<close>

definition is_alphabetic :: "char \<Rightarrow> bool" where
  "is_alphabetic c =
     ((CHR ''a'' \<le> c \<and> c \<le> CHR ''z'') \<or> (CHR ''A'' \<le> c \<and> c \<le> CHR ''Z''))"

text \<open>
  Modelled from the spec: the case normalisation of \<^verbatim>\<open>Word::new\<close>, which the printed
  part elides. A capital letter moves up by 32 to its small letter.
\<close>

definition to_lowercase :: "char \<Rightarrow> char" where
  "to_lowercase c =
     (if CHR ''A'' \<le> c \<and> c \<le> CHR ''Z'' then char_of (of_char c + (32::nat)) else c)"

text \<open>
  Modelled from the spec: the letters of a fresh word, which the printed part of
  \<^verbatim>\<open>Word::new\<close> elides: the characters in lower case, each in state \<open>Unknown\<close>.
\<close>

definition letters_of :: "string \<Rightarrow> Word" where
  "letters_of word = map (\<lambda>c. \<lparr>character = to_lowercase c, state = Unknown\<rparr>) word"

text \<open>
  Modelled from the spec: the body of \<^verbatim>\<open>Word::new\<close> after its length check. TECH.md
  shows only
  \<^verbatim>\<open>
  pub fn new(word: &str) -> Result<Self, &'static str> {
      if word.len() != 5 {
          return Err("Word must be exactly 5 letters");
      }
      // Additional validation...
  }\<close>
  and the rest (\<^verbatim>\<open>game_logic.rs\<close>) is not part of the sources. Following section 4.1 of
  the specification, the elided part rejects a word with a non-alphabetic character and
  builds the letters in lower case (\<open>letters_of\<close>). The argument is the byte string
  that \<^verbatim>\<open>word.len()\<close> counts.
\<close>

definition Word_new :: "string \<Rightarrow> word_error + Word" where
  "Word_new word =
     (if length word \<noteq> 5 then Inl InvalidWord
      else if \<not> list_all is_alphabetic word then Inl InvalidWord
      else Inr (letters_of word))"

section \<open>Pattern matcher\<close>

text \<open>
  \<^verbatim>\<open>Word::matches_pattern\<close> (\<^verbatim>\<open>game_logic.rs\<close>) is not part of the sources, and it
  is not modelled. What the sources hold of it is its test in TECH.md,
  \<^verbatim>\<open>
  fn test_pattern_matching_duplicate_letters() {
      let word = Word::new("paper").unwrap();
      let pattern = create_pattern(
          "happy",
          vec![
              (0, LetterState::Absent),  // 'h' absent
              (1, LetterState::Correct), // 'a' correct
              (2, LetterState::Correct), // 'p' correct
              (3, LetterState::Absent),  // 'p' absent
              (4, LetterState::Absent),  // 'y' absent
          ],
      );
      assert!(word.matches_pattern(&pattern));
  }\<close>
  and the description of TECH.md, which has the matcher handle duplicate letters
  "correctly (matching Wordle's rules)".
\<close>

subsection \<open>The canonical scoring, as the claim words it\<close>




section \<open>Dictionary filter\<close>

text \<open>
  Modelled from the spec: \<^verbatim>\<open>filter_words\<close> (\<^verbatim>\<open>game_logic.rs\<close>) is not part of the
  sources; TECH.md shows only its call,
  \<^verbatim>\<open>Ok(filter_words(&all_words, &patterns))\<close>, in the command \<^verbatim>\<open>filter_word_list\<close>.
  Following section 4.3 of the specification, a candidate of the dictionary is kept, in
  the dictionary's order, when it matches every guess of the history. The matcher,
  \<^verbatim>\<open>Word::matches_pattern\<close>, is not in the sources either: it is the parameter
  \<open>matches_pattern\<close>, applied to the candidate and the guess.
\<close>

definition filter_words ::
  "(Word \<Rightarrow> Word \<Rightarrow> bool) \<Rightarrow> Word list \<Rightarrow> Word list \<Rightarrow> Word list" where
  "filter_words matches_pattern dictionary history =
     filter (\<lambda>candidate. list_all (matches_pattern candidate) history) dictionary"

section \<open>Frontend validation (src/lib/types.ts, Zod schemas)\<close>

text \<open>
  A JavaScript string is a \<open>string\<close> here, one \<open>char\<close> for each UTF-16 code unit, so
  the model covers the strings whose code units are below 256; \<open>length\<close> is the
  \<^verbatim>\<open>.length\<close> of the source. A letter of the page is
  \<^verbatim>\<open>{character: string, state: "unknown" | "correct" | "misplaced" | "absent"}\<close>; its
  state is a string, since the schema is what checks the label at run time.
\<close>

record TLetter =
  character :: string
  state :: string

type_synonym TWord = "TLetter list"

text \<open>\<open>safeParse\<close> fails with a \<^verbatim>\<open>ZodError\<close>; its list of issues is not modelled.\<close>

datatype ZodError = ZodError

text \<open>
  \<^verbatim>\<open>String.prototype.toLowerCase\<close> on code units below 256: the capital letters of
  ASCII (65 to 90) and of Latin-1 (192 to 222, without the multiplication sign 215) move
  up by 32; every other code unit stays.
\<close>

definition lower_unit :: "char \<Rightarrow> char" where
  "lower_unit c =
     (let n = (of_char c :: nat) in
      if (65 \<le> n \<and> n \<le> 90) \<or> (192 \<le> n \<and> n \<le> 222 \<and> n \<noteq> 215)
      then char_of (n + 32) else c)"

definition toLowerCase :: "string \<Rightarrow> string" where
  "toLowerCase val = map lower_unit val"

text \<open>
  The regular expressions of the sources, applied with \<^verbatim>\<open>test\<close> and
  \<^verbatim>\<open>match\<close>: \<^verbatim>\<open>/^[a-zA-Z]$/\<close> and \<^verbatim>\<open>/^[a-z]+$/\<close>.
\<close>

definition lower_class :: "char \<Rightarrow> bool" where
  "lower_class c = (CHR ''a'' \<le> c \<and> c \<le> CHR ''z'')"

definition letter_class :: "char \<Rightarrow> bool" where
  "letter_class c = (lower_class c \<or> (CHR ''A'' \<le> c \<and> c \<le> CHR ''Z''))"

definition regex_one_letter :: "string \<Rightarrow> bool" where
  "regex_one_letter val = (case val of [c] \<Rightarrow> letter_class c | _ \<Rightarrow> False)"

definition regex_lower_plus :: "string \<Rightarrow> bool" where
  "regex_lower_plus val = (val \<noteq> [] \<and> list_all lower_class val)"

text \<open>
  \<^verbatim>\<open>const LetterStateSchema = z.enum(["unknown", "correct", "misplaced", "absent"]);\<close>
\<close>

definition LetterStateSchema :: "string \<Rightarrow> ZodError + string" where
  "LetterStateSchema val =
     (if val \<in> set [''unknown'', ''correct'', ''misplaced'', ''absent''] then Inr val
      else Inl ZodError)"

text \<open>
  \<^verbatim>\<open>
  const CharacterSchema = z
    .string()
    .min(1, {message: "Letter must be at least 1 character"})
    .max(1, {message: "Letter must be at most 1 character"})
    .refine((val) => /^[a-zA-Z]$/.test(val), {message: "Input must be a single letter"})
    .transform((val) => val.toLowerCase());\<close>
\<close>

definition CharacterSchema :: "string \<Rightarrow> ZodError + string" where
  "CharacterSchema val =
     (if length val < 1 then Inl ZodError
      else if length val > 1 then Inl ZodError
      else if \<not> regex_one_letter val then Inl ZodError
      else Inr (toLowerCase val))"

text \<open>
  src/lib/types.d.ts writes the checks of the \<^verbatim>\<open>character\<close> field in another order,
  \<^verbatim>\<open>z.string().min(1, ...).max(1, ...).transform(...).regex(/^[a-z]$/, ...)\<close>. The
  result of \<^verbatim>\<open>transform\<close> is not a string schema and has no method \<^verbatim>\<open>regex\<close>, so
  that chain throws a \<^verbatim>\<open>TypeError\<close> where it is defined and gives no schema to parse
  with; the file exports types only. The page imports \<^verbatim>\<open>GuessesSchema\<close>, which
  types.ts alone exports, and the schemas here are those of types.ts.
\<close>

text \<open>
  \<^verbatim>\<open>const LetterSchema = z.object({character: CharacterSchema, state: LetterStateSchema});\<close>
\<close>

definition LetterSchema :: "TLetter \<Rightarrow> ZodError + TLetter" where
  "LetterSchema letter =
     (case CharacterSchema (character letter) of
        Inl e \<Rightarrow> Inl e
      | Inr c \<Rightarrow>
          (case LetterStateSchema (state letter) of
             Inl e \<Rightarrow> Inl e
           | Inr st \<Rightarrow> Inr \<lparr>character = c, state = st\<rparr>))"

text \<open>\<^verbatim>\<open>z.array(schema)\<close>: every element is parsed, and one failure fails the array.\<close>

fun z_array :: "('a \<Rightarrow> ZodError + 'b) \<Rightarrow> 'a list \<Rightarrow> ZodError + 'b list" where
  "z_array schema [] = Inr []"
| "z_array schema (x # xs) =
     (case schema x of
        Inl e \<Rightarrow> Inl e
      | Inr y \<Rightarrow> (case z_array schema xs of Inl e \<Rightarrow> Inl e | Inr ys \<Rightarrow> Inr (y # ys)))"

text \<open>
  \<^verbatim>\<open>
  const WordSchema = z
    .array(LetterSchema)
    .refine((letters) => letters.length === 5, {message: "Word must be 5 letters"});
  export const GuessesSchema = z.array(WordSchema);\<close>
  The other schemas of the file, \<^verbatim>\<open>FinalLetterStateSchema\<close>, \<^verbatim>\<open>FinalLetterSchema\<close>
  and \<^verbatim>\<open>FinalWordSchema\<close>, are defined there and used nowhere.
\<close>

definition WordSchema :: "TLetter list \<Rightarrow> ZodError + TWord" where
  "WordSchema letters =
     (case z_array LetterSchema letters of
        Inl e \<Rightarrow> Inl e
      | Inr parsed \<Rightarrow> if length parsed = 5 then Inr parsed else Inl ZodError)"

definition GuessesSchema :: "TWord list \<Rightarrow> ZodError + TWord list" where
  "GuessesSchema words = z_array WordSchema words"

section \<open>The page (src/routes/+page.svelte)\<close>

text \<open>
  \<^verbatim>\<open>
  let guesses = $state<TWord[]>(...);
  let possibleMatches = $state<string[]>([]);\<close>
\<close>

record PageState =
  guesses :: "TWord list"
  possibleMatches :: "string list"

text \<open>The first state: one guess of five empty letters, each in state "absent".\<close>

definition initial_state :: PageState where
  "initial_state =
     \<lparr>guesses = [replicate 5 \<lparr>character = [], state = ''absent''\<rparr>], possibleMatches = []\<rparr>"

text \<open>
  What an operation does besides updating the state: an alert, a line on the console, or
  the call \<^verbatim>\<open>invoke("filter_word_list_command", {patterns: ...})\<close>, whose argument is
  \<open>None\<close> when it is \<^verbatim>\<open>undefined\<close>.
\<close>

datatype effect = Alert string | ConsoleError string | Invoke "TWord list option"

text \<open>
  \<^verbatim>\<open>
  const allFilled: boolean = $derived(
    guesses.every((guess) => guess.every((letter) => letter.character !== "")));\<close>
\<close>

definition allFilled :: "TWord list \<Rightarrow> bool" where
  "allFilled gs = list_all (\<lambda>guess. list_all (\<lambda>letter. character letter \<noteq> []) guess) gs"

text \<open>
  \<^verbatim>\<open>
  const handleSubmit = () => {
    if (!allFilled) {
      alert("Please fill all letter boxes before submitting.");
      return;
    }
    const verif = GuessesSchema.safeParse(guesses);
    if (verif.error) {
      console.error("Invalid guesses:", verif.error);
      alert("Invalid guesses. Please check your input.");
    }
    invoke("filter_word_list_command", {patterns: verif.data}).then(
      (possibleWords) => { possibleMatches = (possibleWords as string[]).sort(); });
  };\<close>
  \<open>handleSubmit\<close> is the part that runs at the click and gives its effects in order;
  \<open>handleSubmit_then\<close> is the callback, run with the answer when the call succeeds.
  \<^verbatim>\<open>sort()\<close> without a comparison function orders strings by their code units, which
  is the lexicographic order of \<open>string\<close>.
\<close>

definition handleSubmit :: "PageState \<Rightarrow> effect list" where
  "handleSubmit s =
     (if \<not> allFilled (guesses s)
      then [Alert ''Please fill all letter boxes before submitting.'']
      else
        let verif = GuessesSchema (guesses s) in
        (case verif of
           Inl e \<Rightarrow> [ConsoleError ''Invalid guesses:'',
                     Alert ''Invalid guesses. Please check your input.'']
         | Inr d \<Rightarrow> []) @
        [Invoke (case verif of Inl e \<Rightarrow> None | Inr d \<Rightarrow> Some d)])"

definition handleSubmit_then :: "string list \<Rightarrow> PageState \<Rightarrow> PageState" where
  "handleSubmit_then possibleWords s = s\<lparr>possibleMatches := sort possibleWords\<rparr>"

text \<open>
  \<^verbatim>\<open>
  const addWordAsGuess = (word: string) => {
    if (guesses.length >= 5) {
      alert("Maximum number of guesses reached (5).");
      return;
    }
    const newGuess: TWord = word.split("").map((char, position) => {
      const lowerChar = char.toLowerCase();
      const correctAtThisPosition = guesses.some(
        (guess) =>
          guess[position]?.character.toLowerCase() === lowerChar &&
          guess[position]?.state === "correct");
      if (correctAtThisPosition) {
        return {character: char, state: "correct" as TLetterState};
      }
      return {character: char, state: "absent" as TLetterState};
    });
    guesses = [...guesses, newGuess];
    possibleMatches = possibleMatches.filter(match => match !== word).sort();
  };\<close>
  \<^verbatim>\<open>word.split("")\<close> gives the code units of the word, each as a string of length one;
  \<^verbatim>\<open>guess[position]?.\<close> is undefined, and the test false, at a position the guess does
  not have.
\<close>

definition split_chars :: "string \<Rightarrow> string list" where
  "split_chars word = map (\<lambda>c. [c]) word"

definition correctAtThisPosition :: "TWord list \<Rightarrow> nat \<Rightarrow> string \<Rightarrow> bool" where
  "correctAtThisPosition gs position lowerChar =
     list_ex (\<lambda>guess. position < length guess \<and>
                toLowerCase (character (guess ! position)) = lowerChar \<and>
                state (guess ! position) = ''correct'') gs"

definition newGuess :: "TWord list \<Rightarrow> string \<Rightarrow> TWord" where
  "newGuess gs word =
     map (\<lambda>(position, char).
            if correctAtThisPosition gs position (toLowerCase char)
            then \<lparr>character = char, state = ''correct''\<rparr>
            else \<lparr>character = char, state = ''absent''\<rparr>)
       (enumerate 0 (split_chars word))"

definition addWordAsGuess :: "string \<Rightarrow> PageState \<Rightarrow> effect list \<times> PageState" where
  "addWordAsGuess word s =
     (if length (guesses s) \<ge> 5
      then ([Alert ''Maximum number of guesses reached (5).''], s)
      else ([], \<lparr>guesses = guesses s @ [newGuess (guesses s) word],
                 possibleMatches = sort (filter (\<lambda>match. match \<noteq> word) (possibleMatches s))\<rparr>))"

text \<open>
  \<^verbatim>\<open>
  const deleteGuess = async (index: number) => {
    const deletedGuess = guesses[index];
    const deletedWord = deletedGuess.map(letter => letter.character).join('').toLowerCase();
    guesses = guesses.filter((_, i) => i !== index);
    if (deletedWord.length === 5 && deletedWord.match(/^[a-z]+$/)
        && !possibleMatches.includes(deletedWord)) {
      const remainingFilledGuesses = guesses.filter(guess =>
        guess.every(letter => letter.character !== ""));
      if (remainingFilledGuesses.length > 0) {
        const verif = GuessesSchema.safeParse(remainingFilledGuesses);
        if (verif.success) {
          try {
            const possibleWords =
              await invoke("filter_word_list_command", {patterns: verif.data}) as string[];
            if (possibleWords.includes(deletedWord)) {
              possibleMatches = [...possibleMatches, deletedWord].sort();
            }
          } catch (error) { console.error("Error checking deleted word:", error); }
        }
      } else {
        try {
          const allPossibleWords =
            await invoke("filter_word_list_command", {patterns: []}) as string[];
          if (allPossibleWords.includes(deletedWord)) {
            possibleMatches = [...possibleMatches, deletedWord].sort();
          }
        } catch (error) { console.error("Error checking if deleted word is valid:", error); }
      }
    }
  };\<close>
  The command of the backend is the parameter \<open>invoke\<close>: from the patterns to the
  message of a rejected call (\<open>Inl\<close>) or to the words it answers (\<open>Inr\<close>). The call is
  awaited in place; what other handlers do while it is pending is not modelled. At an
  index the list does not have, \<^verbatim>\<open>deletedGuess.map\<close> throws a \<^verbatim>\<open>TypeError\<close> before
  anything is changed.
\<close>

datatype js_error = TypeError

text \<open>
  What the two \<^verbatim>\<open>try\<close> blocks of \<^verbatim>\<open>deleteGuess\<close> have in common: the command is
  called with the patterns; when it answers and the deleted word is among the words,
  the word is added to \<open>possibleMatches\<close> and the list is sorted; when the call is
  rejected, the message is written to the console.
\<close>

definition readd_deleted ::
  "(TWord list option \<Rightarrow> string + string list) \<Rightarrow> TWord list \<Rightarrow> string \<Rightarrow> string \<Rightarrow>
     PageState \<Rightarrow> effect list \<times> PageState" where
  "readd_deleted invoke patterns message deletedWord s =
     (case invoke (Some patterns) of
        Inl error \<Rightarrow> ([Invoke (Some patterns), ConsoleError message], s)
      | Inr possibleWords \<Rightarrow>
          ([Invoke (Some patterns)],
           if deletedWord \<in> set possibleWords
           then s\<lparr>possibleMatches := sort (possibleMatches s @ [deletedWord])\<rparr>
           else s))"

definition deleteGuess ::
  "(TWord list option \<Rightarrow> string + string list) \<Rightarrow> nat \<Rightarrow> PageState \<Rightarrow>
     js_error + effect list \<times> PageState" where
  "deleteGuess invoke index s =
     (if index \<ge> length (guesses s) then Inl TypeError
      else
        let deletedGuess = guesses s ! index;
            deletedWord = toLowerCase (concat (map character deletedGuess));
            s1 = s\<lparr>guesses := map snd (filter (\<lambda>(i, _). i \<noteq> index) (enumerate 0 (guesses s)))\<rparr>
        in
        if length deletedWord = 5 \<and> regex_lower_plus deletedWord
           \<and> deletedWord \<notin> set (possibleMatches s1)
        then
          let remainingFilledGuesses =
                filter (\<lambda>guess. list_all (\<lambda>letter. character letter \<noteq> []) guess) (guesses s1)
          in
          if length remainingFilledGuesses > 0
          then
            (case GuessesSchema remainingFilledGuesses of
               Inl e \<Rightarrow> Inr ([], s1)
             | Inr d \<Rightarrow> Inr (readd_deleted invoke d ''Error checking deleted word:'' deletedWord s1))
          else Inr (readd_deleted invoke [] ''Error checking if deleted word is valid:''
                      deletedWord s1)
        else Inr ([], s1))"

section \<open>Properties\<close>

lemma upt_5: "[0..<5] = [0, 1, 2, 3, 4]"
  by (simp add: upt_rec)

subsection \<open>Word construction\<close>

lemma of_char_shift:
  assumes "65 \<le> (of_char c :: nat)" "(of_char c :: nat) \<le> 90"
  shows "(of_char (char_of (of_char c + (32::nat))) :: nat) = of_char c + 32"
  using assms by (simp add: of_char_of)

lemma to_lowercase_range:
  assumes "is_alphabetic c"
  shows "CHR ''a'' \<le> to_lowercase c \<and> to_lowercase c \<le> CHR ''z''"
proof (cases "CHR ''A'' \<le> c \<and> c \<le> CHR ''Z''")
  case True
  then have r: "65 \<le> (of_char c :: nat)" "(of_char c :: nat) \<le> 90"
    by (simp_all add: less_eq_char_def)
  have "to_lowercase c = char_of (of_char c + (32::nat))"
    using True by (simp add: to_lowercase_def)
  then have "(of_char (to_lowercase c) :: nat) = of_char c + 32"
    using of_char_shift [OF r] by simp
  then show ?thesis using r
    by (simp add: less_eq_char_def)
next
  case False
  moreover have "to_lowercase c = c"
    unfolding to_lowercase_def by (rule if_not_P) (rule False)
  ultimately show ?thesis using assms unfolding is_alphabetic_def by metis
qed

text \<open>
  C6. For every input string, \<open>Word_new\<close> succeeds if and only if the string has length
  exactly 5 and every character is alphabetic; on success the word has the five
  characters in lower case (each in \<open>a\<close> to \<open>z\<close>), and otherwise the construction fails
  with \<open>InvalidWord\<close>.
\<close>

theorem Word_new_correct:
  "((\<exists>w. Word_new s = Inr w) \<longleftrightarrow> length s = 5 \<and> (\<forall>c \<in> set s. is_alphabetic c)) \<and>
   (\<forall>w. Word_new s = Inr w \<longrightarrow>
      length w = 5 \<and>
      (\<forall>i < 5. Letter.character (w ! i) = to_lowercase (s ! i) \<and>
                CHR ''a'' \<le> Letter.character (w ! i) \<and> Letter.character (w ! i) \<le> CHR ''z'' \<and>
                Letter.state (w ! i) = Unknown)) \<and>
   ((\<nexists>w. Word_new s = Inr w) \<longrightarrow> Word_new s = Inl InvalidWord)"
proof (cases "length s = 5 \<and> (\<forall>c \<in> set s. is_alphabetic c)")
  case True
  then have w: "Word_new s = Inr (letters_of s)"
    by (simp add: Word_new_def list_all_iff)
  have "\<forall>i < 5. is_alphabetic (s ! i)" using True by simp
  then have "\<forall>i < 5. Letter.character (letters_of s ! i) = to_lowercase (s ! i) \<and>
                CHR ''a'' \<le> Letter.character (letters_of s ! i) \<and>
                Letter.character (letters_of s ! i) \<le> CHR ''z'' \<and>
                Letter.state (letters_of s ! i) = Unknown"
    using True by (simp add: letters_of_def to_lowercase_range)
  then show ?thesis using True w by (simp add: letters_of_def)
next
  case False
  then have "Word_new s = Inl InvalidWord"
    by (auto simp: Word_new_def list_all_iff)
  then show ?thesis using False by simp
qed

theorem Word_new_correct_witness:
  "Word_new ''CRANE'' = Inr (letters_of ''CRANE'') \<and> length (letters_of ''CRANE'') = 5 \<and>
   Letter.character (letters_of ''CRANE'' ! 0) = to_lowercase CHR ''C'' \<and>
   Word_new ''cr4ne'' = Inl InvalidWord"
proof -
  have h1: "Word_new ''CRANE'' = Inr (letters_of ''CRANE'')"
    by (simp add: Word_new_def is_alphabetic_def)
  have h2: "\<not> (length ''cr4ne'' = 5 \<and> (\<forall>c \<in> set ''cr4ne''. is_alphabetic c))"
    by (simp add: is_alphabetic_def)
  have h3: "(0::nat) < 5" "''CRANE'' ! 0 = CHR ''C''" by simp_all
  show ?thesis
    using Word_new_correct [of "''CRANE''"] Word_new_correct [of "''cr4ne''"] h1 h2 h3
    by metis
qed

subsection \<open>The canonical scoring on the input of the repository's test\<close>


subsection \<open>The dictionary filter\<close>

text \<open>
  C4. For every dictionary, and whatever the matcher, filtering with the empty guess
  history returns the full dictionary, unchanged (in membership, and also in order).
\<close>

theorem filter_words_empty_history: "filter_words matches_pattern dictionary [] = dictionary"
  by (simp add: filter_words_def)

text \<open>
  C5. For every dictionary, history and guess, and whatever the matcher, the words that
  survive the history extended by the guess are among the words that survive the
  history: appending a guess never increases the result.
\<close>

theorem filter_words_append_subset:
  "set (filter_words matches_pattern dictionary (history @ [g])) \<subseteq>
     set (filter_words matches_pattern dictionary history)"
  by (auto simp: filter_words_def)


subsection \<open>The schemas\<close>

lemma ZodError_eq: "(e :: ZodError) = ZodError"
  by (cases e) simp

lemma z_array_Inr_iff:
  "(\<exists>ys. z_array schema xs = Inr ys) \<longleftrightarrow> (\<forall>x \<in> set xs. \<exists>y. schema x = Inr y)"
  by (induction xs) (auto split: sum.splits)

lemma z_array_length: "z_array schema xs = Inr ys \<Longrightarrow> length ys = length xs"
  by (induction xs arbitrary: ys) (auto split: sum.splits)

lemma regex_one_letter_length: "regex_one_letter val \<Longrightarrow> length val = 1"
  by (auto simp: regex_one_letter_def split: list.splits)

lemma CharacterSchema_Inr_iff:
  "(\<exists>c. CharacterSchema val = Inr c) \<longleftrightarrow> regex_one_letter val"
  using regex_one_letter_length [of val] by (auto simp: CharacterSchema_def)

lemma LetterStateSchema_Inr_iff:
  "(\<exists>st. LetterStateSchema val = Inr st) \<longleftrightarrow>
     val \<in> set [''unknown'', ''correct'', ''misplaced'', ''absent'']"
  by (simp add: LetterStateSchema_def)

lemma LetterSchema_Inr_iff:
  "(\<exists>l. LetterSchema letter = Inr l) \<longleftrightarrow>
     regex_one_letter (character letter) \<and>
     state letter \<in> set [''unknown'', ''correct'', ''misplaced'', ''absent'']"
proof -
  have "(\<exists>l. LetterSchema letter = Inr l) \<longleftrightarrow>
      (\<exists>c. CharacterSchema (character letter) = Inr c) \<and>
      (\<exists>st. LetterStateSchema (state letter) = Inr st)"
    by (auto simp: LetterSchema_def split: sum.splits)
  then show ?thesis
    unfolding CharacterSchema_Inr_iff LetterStateSchema_Inr_iff .
qed

lemma WordSchema_Inr_iff:
  "(\<exists>w. WordSchema letters = Inr w) \<longleftrightarrow>
     length letters = 5 \<and>
     (\<forall>l \<in> set letters. regex_one_letter (character l) \<and>
        state l \<in> set [''unknown'', ''correct'', ''misplaced'', ''absent''])"
proof -
  have "(\<exists>w. WordSchema letters = Inr w) \<longleftrightarrow>
      (\<exists>parsed. z_array LetterSchema letters = Inr parsed) \<and> length letters = 5"
    by (auto simp: WordSchema_def z_array_length split: sum.splits)
  then show ?thesis
    unfolding z_array_Inr_iff LetterSchema_Inr_iff by blast
qed

lemma GuessesSchema_Inr_iff:
  "(\<exists>parsed. GuessesSchema gs = Inr parsed) \<longleftrightarrow>
     (\<forall>w \<in> set gs. length w = 5 \<and>
        (\<forall>l \<in> set w. regex_one_letter (character l) \<and>
           state l \<in> set [''unknown'', ''correct'', ''misplaced'', ''absent'']))"
  unfolding GuessesSchema_def z_array_Inr_iff WordSchema_Inr_iff ..

lemma GuessesSchema_Inl_iff:
  "GuessesSchema gs = Inl ZodError \<longleftrightarrow> \<not> (\<exists>parsed. GuessesSchema gs = Inr parsed)"
  by (cases "GuessesSchema gs") (simp_all add: ZodError_eq)

text \<open>
  C3 (amended). \<open>GuessesSchema\<close> accepts a list of guesses exactly when every guess has
  five letters, every character is a single letter and every state label is one of
  "unknown", "correct", "misplaced" and "absent": a guess with a label outside these four
  is rejected with an error, and the label "unknown" is accepted. \<open>convert_letter_state\<close>
  rejects no label: it gives \<open>Unknown\<close> for every label other than "correct",
  "misplaced" and "absent".
\<close>

theorem boundary_state_labels:
  "((\<exists>parsed. GuessesSchema gs = Inr parsed) \<longleftrightarrow>
      (\<forall>w \<in> set gs. length w = 5 \<and>
        (\<forall>l \<in> set w. regex_one_letter (character l) \<and>
           state l \<in> set [''unknown'', ''correct'', ''misplaced'', ''absent'']))) \<and>
   ((\<exists>w \<in> set gs. \<exists>l \<in> set w.
        state l \<notin> set [''unknown'', ''correct'', ''misplaced'', ''absent'']) \<longrightarrow>
      GuessesSchema gs = Inl ZodError) \<and>
   (convert_letter_state label = Unknown \<longleftrightarrow>
      label \<notin> set [''correct'', ''misplaced'', ''absent''])"
proof -
  have a: "(\<exists>parsed. GuessesSchema gs = Inr parsed) \<longleftrightarrow>
      (\<forall>w \<in> set gs. length w = 5 \<and>
        (\<forall>l \<in> set w. regex_one_letter (character l) \<and>
           state l \<in> set [''unknown'', ''correct'', ''misplaced'', ''absent'']))"
    by (rule GuessesSchema_Inr_iff)
  have b: "(\<exists>w \<in> set gs. \<exists>l \<in> set w.
        state l \<notin> set [''unknown'', ''correct'', ''misplaced'', ''absent'']) \<longrightarrow>
      GuessesSchema gs = Inl ZodError"
    unfolding GuessesSchema_Inl_iff a by blast
  have c: "convert_letter_state label = Unknown \<longleftrightarrow>
      label \<notin> set [''correct'', ''misplaced'', ''absent'']"
    by (simp add: convert_letter_state_def)
  show ?thesis using a b c by blast
qed

lemma LetterSchema_lower:
  "lower_class c \<Longrightarrow> st \<in> set [''unknown'', ''correct'', ''misplaced'', ''absent''] \<Longrightarrow>
     LetterSchema \<lparr>character = [c], state = st\<rparr> = Inr \<lparr>character = [c], state = st\<rparr>"
  by (auto simp: LetterSchema_def CharacterSchema_def regex_one_letter_def letter_class_def
      LetterStateSchema_def toLowerCase_def lower_unit_def lower_class_def less_eq_char_def)

text \<open>
  A guess whose first position carries the state "unknown" passes \<open>GuessesSchema\<close>
  unchanged, and \<open>convert_letter_state\<close> turns "unknown", as well as a label that is
  not a state at all, into \<open>Unknown\<close> without an error.
\<close>

theorem GuessesSchema_accepts_unknown:
  "GuessesSchema
     [[\<lparr>character = ''h'', state = ''unknown''\<rparr>, \<lparr>character = ''a'', state = ''correct''\<rparr>,
       \<lparr>character = ''p'', state = ''correct''\<rparr>, \<lparr>character = ''p'', state = ''absent''\<rparr>,
       \<lparr>character = ''y'', state = ''absent''\<rparr>]] =
   Inr
     [[\<lparr>character = ''h'', state = ''unknown''\<rparr>, \<lparr>character = ''a'', state = ''correct''\<rparr>,
       \<lparr>character = ''p'', state = ''correct''\<rparr>, \<lparr>character = ''p'', state = ''absent''\<rparr>,
       \<lparr>character = ''y'', state = ''absent''\<rparr>]] \<and>
   convert_letter_state ''unknown'' = Unknown \<and>
   convert_letter_state ''green'' = Unknown"
  by (simp add: GuessesSchema_def WordSchema_def LetterSchema_lower lower_class_def
      convert_letter_state_def)

theorem boundary_state_labels_witness:
  "GuessesSchema
     [[\<lparr>character = ''h'', state = ''green''\<rparr>, \<lparr>character = ''a'', state = ''correct''\<rparr>,
       \<lparr>character = ''p'', state = ''correct''\<rparr>, \<lparr>character = ''p'', state = ''absent''\<rparr>,
       \<lparr>character = ''y'', state = ''absent''\<rparr>]] = Inl ZodError \<and>
   convert_letter_state ''green'' = Unknown"
proof -
  let ?gs = "[[\<lparr>character = ''h'', state = ''green''\<rparr>, \<lparr>character = ''a'', state = ''correct''\<rparr>,
       \<lparr>character = ''p'', state = ''correct''\<rparr>, \<lparr>character = ''p'', state = ''absent''\<rparr>,
       \<lparr>character = ''y'', state = ''absent''\<rparr>]]"
  have h: "\<exists>w \<in> set ?gs. \<exists>l \<in> set w.
        state l \<notin> set [''unknown'', ''correct'', ''misplaced'', ''absent'']"
    by simp
  have l: "''green'' \<notin> set [''correct'', ''misplaced'', ''absent'']"
    by simp
  show ?thesis
    using boundary_state_labels [of ?gs "''green''"] h l by blast
qed

lemma lower_unit_lower: "lower_class c \<Longrightarrow> lower_unit c = c"
  by (simp add: lower_unit_def lower_class_def less_eq_char_def)

lemma lower_unit_upper:
  assumes "letter_class c" "\<not> lower_class c"
  shows "(of_char (lower_unit c) :: nat) = of_char c + 32"
proof -
  have r: "65 \<le> (of_char c :: nat)" "(of_char c :: nat) \<le> 90"
    using assms by (simp_all add: letter_class_def less_eq_char_def)
  then have "lower_unit c = char_of (of_char c + (32::nat))"
    by (simp add: lower_unit_def)
  then show ?thesis using r by (simp add: of_char_of)
qed

lemma lower_unit_letter: "letter_class c \<Longrightarrow> lower_class (lower_unit c)"
proof (cases "lower_class c")
  case True
  then show ?thesis by (simp add: lower_unit_lower)
next
  case False
  assume l: "letter_class c"
  have r: "65 \<le> (of_char c :: nat)" "(of_char c :: nat) \<le> 90"
    using l False by (simp_all add: letter_class_def less_eq_char_def)
  show ?thesis
    using lower_unit_upper [OF l False] r by (simp add: lower_class_def less_eq_char_def)
qed

text \<open>
  C7. For the letter of one position, the empty string and every string longer than one
  character are rejected, and a single alphabetic character is accepted and put in lower
  case (unchanged when it is already in \<open>a\<close> to \<open>z\<close>, moved up by 32 from \<open>A\<close> to
  \<open>Z\<close>). The rejection is the boundary's: \<open>GuessesSchema\<close> fails when a character of
  a guess has a length other than one.
\<close>

theorem CharacterSchema_boundary:
  "(val = [] \<longrightarrow> CharacterSchema val = Inl ZodError) \<and>
   (length val > 1 \<longrightarrow> CharacterSchema val = Inl ZodError) \<and>
   (letter_class c \<longrightarrow>
      CharacterSchema [c] = Inr [lower_unit c] \<and>
      lower_class (lower_unit c) \<and>
      (lower_class c \<longrightarrow> lower_unit c = c) \<and>
      (\<not> lower_class c \<longrightarrow> (of_char (lower_unit c) :: nat) = of_char c + 32)) \<and>
   ((\<exists>w \<in> set gs. \<exists>l \<in> set w. length (character l) \<noteq> 1) \<longrightarrow>
      GuessesSchema gs = Inl ZodError)"
proof -
  have a: "val = [] \<longrightarrow> CharacterSchema val = Inl ZodError"
    by (simp add: CharacterSchema_def)
  have b: "length val > 1 \<longrightarrow> CharacterSchema val = Inl ZodError"
    by (simp add: CharacterSchema_def)
  have c: "letter_class c \<longrightarrow>
      CharacterSchema [c] = Inr [lower_unit c] \<and>
      lower_class (lower_unit c) \<and>
      (lower_class c \<longrightarrow> lower_unit c = c) \<and>
      (\<not> lower_class c \<longrightarrow> (of_char (lower_unit c) :: nat) = of_char c + 32)"
    by (simp add: CharacterSchema_def regex_one_letter_def toLowerCase_def
        lower_unit_letter lower_unit_lower lower_unit_upper)
  have d: "(\<exists>w \<in> set gs. \<exists>l \<in> set w. length (character l) \<noteq> 1) \<longrightarrow>
      GuessesSchema gs = Inl ZodError"
    unfolding GuessesSchema_Inl_iff GuessesSchema_Inr_iff
    using regex_one_letter_length by blast
  show ?thesis using a b c d by blast
qed

theorem CharacterSchema_boundary_witness:
  "CharacterSchema [] = Inl ZodError \<and> CharacterSchema ''ab'' = Inl ZodError \<and>
   CharacterSchema ''Q'' = Inr [lower_unit CHR ''Q''] \<and>
   (of_char (lower_unit CHR ''Q'') :: nat) = of_char CHR ''Q'' + 32 \<and>
   CharacterSchema ''q'' = Inr ''q'' \<and>
   GuessesSchema [[\<lparr>character = ''ab'', state = ''absent''\<rparr>]] = Inl ZodError"
proof -
  have h1: "length ''ab'' > 1" by simp
  have h2: "letter_class CHR ''Q''" "\<not> lower_class CHR ''Q''"
    by (simp_all add: letter_class_def lower_class_def)
  have h3: "\<exists>w \<in> set [[\<lparr>character = ''ab'', state = ''absent''\<rparr>]].
      \<exists>l \<in> set w. length (character l) \<noteq> 1"
    by simp
  have h4: "letter_class CHR ''q''" "lower_class CHR ''q''"
    by (simp_all add: letter_class_def lower_class_def)
  have q: "CharacterSchema ''q'' = Inr ''q''"
    using CharacterSchema_boundary [of "[]" "CHR ''q''" "[]"] h4 by simp
  show ?thesis
    using CharacterSchema_boundary [of "[]" "CHR ''Q''" "[[\<lparr>character = ''ab'', state = ''absent''\<rparr>]]"]
      CharacterSchema_boundary [of "''ab''" "CHR ''Q''" "[]"] h1 h2 h3 q
    by blast
qed

text \<open>
  On the first state of the page \<open>GuessesSchema\<close> fails (the characters are empty), and
  \<open>handleSubmit\<close> stops at its first check: one alert, and no call of the command.
\<close>

theorem handleSubmit_not_filled:
  "GuessesSchema (guesses initial_state) = Inl ZodError \<and>
   handleSubmit initial_state = [Alert ''Please fill all letter boxes before submitting.''] \<and>
   Invoke None \<notin> set (handleSubmit initial_state)"
proof -
  have "\<not> (\<exists>parsed. GuessesSchema (guesses initial_state) = Inr parsed)"
    unfolding GuessesSchema_Inr_iff
    by (simp add: initial_state_def regex_one_letter_def)
  then have a: "GuessesSchema (guesses initial_state) = Inl ZodError"
    by (simp add: GuessesSchema_Inl_iff)
  have b: "handleSubmit initial_state = [Alert ''Please fill all letter boxes before submitting.'']"
    by (simp add: handleSubmit_def allFilled_def initial_state_def list_all_iff)
  show ?thesis using a b by simp
qed

text \<open>
  C8 (amended). For every state whose letter boxes are all filled and on which
  \<open>GuessesSchema\<close> fails, \<open>handleSubmit\<close> reports the error and does not stop: it
  still calls the command, with \<^verbatim>\<open>patterns\<close> undefined. For every state with an empty
  letter box, \<open>handleSubmit\<close> alerts and returns before it parses, and the command is
  not called.
\<close>

theorem handleSubmit_invokes_undefined:
  "(allFilled (guesses s) \<and> GuessesSchema (guesses s) = Inl e \<longrightarrow>
      handleSubmit s =
        [ConsoleError ''Invalid guesses:'', Alert ''Invalid guesses. Please check your input.'',
         Invoke None]) \<and>
   (\<not> allFilled (guesses s) \<longrightarrow>
      handleSubmit s = [Alert ''Please fill all letter boxes before submitting.''] \<and>
      (\<forall>patterns. Invoke patterns \<notin> set (handleSubmit s)))"
  by (simp add: handleSubmit_def)

text \<open>
  A state with every box filled and a failing parse: the first guess is typed, the
  backend answers the search with a word of six letters, which the page does not check,
  and the word is clicked. And a state with an empty box: one letter typed of five.
\<close>

theorem handleSubmit_invokes_undefined_witness:
  "allFilled (guesses (snd (addWordAsGuess ''cranes'' (handleSubmit_then [''cranes'']
      \<lparr>guesses = [[\<lparr>character = ''A'', state = ''absent''\<rparr>,
                   \<lparr>character = ''B'', state = ''absent''\<rparr>,
                   \<lparr>character = ''O'', state = ''absent''\<rparr>,
                   \<lparr>character = ''U'', state = ''absent''\<rparr>,
                   \<lparr>character = ''T'', state = ''absent''\<rparr>]],
       possibleMatches = []\<rparr>)))) \<and>
   GuessesSchema (guesses (snd (addWordAsGuess ''cranes'' (handleSubmit_then [''cranes'']
      \<lparr>guesses = [[\<lparr>character = ''A'', state = ''absent''\<rparr>,
                   \<lparr>character = ''B'', state = ''absent''\<rparr>,
                   \<lparr>character = ''O'', state = ''absent''\<rparr>,
                   \<lparr>character = ''U'', state = ''absent''\<rparr>,
                   \<lparr>character = ''T'', state = ''absent''\<rparr>]],
       possibleMatches = []\<rparr>)))) = Inl ZodError \<and>
   handleSubmit (snd (addWordAsGuess ''cranes'' (handleSubmit_then [''cranes'']
      \<lparr>guesses = [[\<lparr>character = ''A'', state = ''absent''\<rparr>,
                   \<lparr>character = ''B'', state = ''absent''\<rparr>,
                   \<lparr>character = ''O'', state = ''absent''\<rparr>,
                   \<lparr>character = ''U'', state = ''absent''\<rparr>,
                   \<lparr>character = ''T'', state = ''absent''\<rparr>]],
       possibleMatches = []\<rparr>))) =
     [ConsoleError ''Invalid guesses:'', Alert ''Invalid guesses. Please check your input.'',
      Invoke None] \<and>
   \<not> allFilled (guesses \<lparr>guesses = [[\<lparr>character = ''A'', state = ''absent''\<rparr>,
                   \<lparr>character = [], state = ''absent''\<rparr>,
                   \<lparr>character = [], state = ''absent''\<rparr>,
                   \<lparr>character = [], state = ''absent''\<rparr>,
                   \<lparr>character = [], state = ''absent''\<rparr>]],
       possibleMatches = []\<rparr>) \<and>
   handleSubmit \<lparr>guesses = [[\<lparr>character = ''A'', state = ''absent''\<rparr>,
                   \<lparr>character = [], state = ''absent''\<rparr>,
                   \<lparr>character = [], state = ''absent''\<rparr>,
                   \<lparr>character = [], state = ''absent''\<rparr>,
                   \<lparr>character = [], state = ''absent''\<rparr>]],
       possibleMatches = []\<rparr> = [Alert ''Please fill all letter boxes before submitting.'']"
proof -
  let ?s = "snd (addWordAsGuess ''cranes'' (handleSubmit_then [''cranes'']
      \<lparr>guesses = [[\<lparr>character = ''A'', state = ''absent''\<rparr>,
                   \<lparr>character = ''B'', state = ''absent''\<rparr>,
                   \<lparr>character = ''O'', state = ''absent''\<rparr>,
                   \<lparr>character = ''U'', state = ''absent''\<rparr>,
                   \<lparr>character = ''T'', state = ''absent''\<rparr>]],
       possibleMatches = []\<rparr>))"
  let ?t = "\<lparr>guesses = [[\<lparr>character = ''A'', state = ''absent''\<rparr>,
                   \<lparr>character = [], state = ''absent''\<rparr>,
                   \<lparr>character = [], state = ''absent''\<rparr>,
                   \<lparr>character = [], state = ''absent''\<rparr>,
                   \<lparr>character = [], state = ''absent''\<rparr>]],
       possibleMatches = []\<rparr>"
  have g: "guesses ?s =
      [[\<lparr>character = ''A'', state = ''absent''\<rparr>, \<lparr>character = ''B'', state = ''absent''\<rparr>,
        \<lparr>character = ''O'', state = ''absent''\<rparr>, \<lparr>character = ''U'', state = ''absent''\<rparr>,
        \<lparr>character = ''T'', state = ''absent''\<rparr>],
       [\<lparr>character = ''c'', state = ''absent''\<rparr>, \<lparr>character = ''r'', state = ''absent''\<rparr>,
        \<lparr>character = ''a'', state = ''absent''\<rparr>, \<lparr>character = ''n'', state = ''absent''\<rparr>,
        \<lparr>character = ''e'', state = ''absent''\<rparr>, \<lparr>character = ''s'', state = ''absent''\<rparr>]]"
    by (simp add: addWordAsGuess_def handleSubmit_then_def newGuess_def split_chars_def
        enumerate_eq_zip upt_rec correctAtThisPosition_def)
  have a: "allFilled (guesses ?s)"
    unfolding g by (simp add: allFilled_def)
  have "\<not> (\<exists>parsed. GuessesSchema (guesses ?s) = Inr parsed)"
    unfolding GuessesSchema_Inr_iff g by simp
  then have b: "GuessesSchema (guesses ?s) = Inl ZodError"
    by (simp add: GuessesSchema_Inl_iff)
  have c: "\<not> allFilled (guesses ?t)"
    by (simp add: allFilled_def)
  show ?thesis
    using handleSubmit_invokes_undefined [of ?s ZodError] handleSubmit_invokes_undefined [of ?t]
      a b c
    by blast
qed

subsection \<open>The operations of the page\<close>

lemma length_newGuess: "length (newGuess gs word) = length word"
  by (simp add: newGuess_def split_chars_def)

lemma nth_newGuess:
  assumes "p < length word"
  shows "newGuess gs word ! p =
           (if correctAtThisPosition gs p (toLowerCase [word ! p])
            then \<lparr>character = [word ! p], state = ''correct''\<rparr>
            else \<lparr>character = [word ! p], state = ''absent''\<rparr>)"
  using assms by (simp add: newGuess_def split_chars_def nth_enumerate_eq)

lemma correctAtThisPosition_iff:
  "correctAtThisPosition gs p lowerChar \<longleftrightarrow>
     (\<exists>guess \<in> set gs. p < length guess \<and>
        toLowerCase (character (guess ! p)) = lowerChar \<and> state (guess ! p) = ''correct'')"
  by (simp add: correctAtThisPosition_def list_ex_iff)

text \<open>
  C9. With five guesses or more, \<open>addWordAsGuess\<close> leaves the state unchanged.
  Otherwise it appends exactly one guess, with the characters of the word; its letter at
  position \<open>p\<close> has state "correct" if and only if some existing guess has the same
  character, compared in lower case, at position \<open>p\<close> marked "correct", and state
  "absent" otherwise; and the word is removed from \<open>possibleMatches\<close>, whose other
  entries are kept and sorted.
\<close>

theorem addWordAsGuess_spec:
  "(length (guesses s) \<ge> 5 \<longrightarrow> snd (addWordAsGuess word s) = s) \<and>
   (length (guesses s) < 5 \<longrightarrow>
      (\<exists>g. guesses (snd (addWordAsGuess word s)) = guesses s @ [g] \<and>
           length g = length word \<and>
           (\<forall>p < length word.
              character (g ! p) = [word ! p] \<and>
              (state (g ! p) = ''correct'' \<longleftrightarrow>
                 (\<exists>guess \<in> set (guesses s). p < length guess \<and>
                    toLowerCase (character (guess ! p)) = toLowerCase [word ! p] \<and>
                    state (guess ! p) = ''correct'')) \<and>
              (state (g ! p) \<noteq> ''correct'' \<longrightarrow> state (g ! p) = ''absent''))) \<and>
      possibleMatches (snd (addWordAsGuess word s)) =
        sort (filter (\<lambda>match. match \<noteq> word) (possibleMatches s)) \<and>
      set (possibleMatches (snd (addWordAsGuess word s))) = set (possibleMatches s) - {word} \<and>
      mset (possibleMatches (snd (addWordAsGuess word s))) =
        filter_mset (\<lambda>match. match \<noteq> word) (mset (possibleMatches s)))"
proof -
  have a: "length (guesses s) \<ge> 5 \<longrightarrow> snd (addWordAsGuess word s) = s"
    by (simp add: addWordAsGuess_def)
  have g: "\<forall>p < length word.
              character (newGuess (guesses s) word ! p) = [word ! p] \<and>
              (state (newGuess (guesses s) word ! p) = ''correct'' \<longleftrightarrow>
                 (\<exists>guess \<in> set (guesses s). p < length guess \<and>
                    toLowerCase (character (guess ! p)) = toLowerCase [word ! p] \<and>
                    state (guess ! p) = ''correct'')) \<and>
              (state (newGuess (guesses s) word ! p) \<noteq> ''correct'' \<longrightarrow>
                 state (newGuess (guesses s) word ! p) = ''absent'')"
    by (simp add: nth_newGuess correctAtThisPosition_iff)
  have b: "length (guesses s) < 5 \<longrightarrow>
      guesses (snd (addWordAsGuess word s)) = guesses s @ [newGuess (guesses s) word] \<and>
      possibleMatches (snd (addWordAsGuess word s)) =
        sort (filter (\<lambda>match. match \<noteq> word) (possibleMatches s))"
    by (simp add: addWordAsGuess_def)
  have c: "length (guesses s) < 5 \<longrightarrow>
      set (possibleMatches (snd (addWordAsGuess word s))) = set (possibleMatches s) - {word} \<and>
      mset (possibleMatches (snd (addWordAsGuess word s))) =
        filter_mset (\<lambda>match. match \<noteq> word) (mset (possibleMatches s))"
    by (auto simp: addWordAsGuess_def)
  show ?thesis
    using a b c g length_newGuess [of "guesses s" word] by blast
qed

theorem addWordAsGuess_spec_witness:
  "length (guesses \<lparr>guesses = [[\<lparr>character = ''C'', state = ''correct''\<rparr>,
                                \<lparr>character = ''R'', state = ''absent''\<rparr>]],
                    possibleMatches = [''cigar'', ''cabin'']\<rparr>) < 5 \<and>
   set (possibleMatches (snd (addWordAsGuess ''cigar''
          \<lparr>guesses = [[\<lparr>character = ''C'', state = ''correct''\<rparr>,
                       \<lparr>character = ''R'', state = ''absent''\<rparr>]],
           possibleMatches = [''cigar'', ''cabin'']\<rparr>))) =
     set (possibleMatches \<lparr>guesses = [[\<lparr>character = ''C'', state = ''correct''\<rparr>,
                                \<lparr>character = ''R'', state = ''absent''\<rparr>]],
                    possibleMatches = [''cigar'', ''cabin'']\<rparr>) - {''cigar''} \<and>
   guesses (snd (addWordAsGuess ''cigar''
          \<lparr>guesses = [[\<lparr>character = ''C'', state = ''correct''\<rparr>,
                       \<lparr>character = ''R'', state = ''absent''\<rparr>]],
           possibleMatches = [''cigar'', ''cabin'']\<rparr>)) =
     [[\<lparr>character = ''C'', state = ''correct''\<rparr>, \<lparr>character = ''R'', state = ''absent''\<rparr>],
      [\<lparr>character = ''c'', state = ''correct''\<rparr>, \<lparr>character = ''i'', state = ''absent''\<rparr>,
       \<lparr>character = ''g'', state = ''absent''\<rparr>, \<lparr>character = ''a'', state = ''absent''\<rparr>,
       \<lparr>character = ''r'', state = ''absent''\<rparr>]]"
proof -
  let ?s = "\<lparr>guesses = [[\<lparr>character = ''C'', state = ''correct''\<rparr>,
                       \<lparr>character = ''R'', state = ''absent''\<rparr>]],
           possibleMatches = [''cigar'', ''cabin'']\<rparr>"
  have h: "length (guesses ?s) < 5" by simp
  have e: "guesses (snd (addWordAsGuess ''cigar'' ?s)) =
     [[\<lparr>character = ''C'', state = ''correct''\<rparr>, \<lparr>character = ''R'', state = ''absent''\<rparr>],
      [\<lparr>character = ''c'', state = ''correct''\<rparr>, \<lparr>character = ''i'', state = ''absent''\<rparr>,
       \<lparr>character = ''g'', state = ''absent''\<rparr>, \<lparr>character = ''a'', state = ''absent''\<rparr>,
       \<lparr>character = ''r'', state = ''absent''\<rparr>]]"
    by (simp add: addWordAsGuess_def newGuess_def split_chars_def enumerate_eq_zip upt_5
        correctAtThisPosition_def toLowerCase_def lower_unit_def char_of_def bit_Suc_0_iff)
  show ?thesis
    using addWordAsGuess_spec [of ?s "''cigar''"] h e by blast
qed

lemma readd_deleted_sorted:
  assumes "sorted (possibleMatches s)"
    and "readd_deleted invoke patterns message deletedWord s = (effects, s')"
  shows "sorted (possibleMatches s')"
  using assms by (auto simp: readd_deleted_def split: sum.splits if_splits)

text \<open>
  C10. Every operation that updates \<open>possibleMatches\<close> keeps it sorted in ascending
  lexicographic order: the callback of \<open>handleSubmit\<close> sorts the answer of the filter,
  \<open>deleteGuess\<close> sorts after adding the deleted word back, and \<open>addWordAsGuess\<close>
  sorts after removing the word.
\<close>

theorem possibleMatches_sorted:
  assumes "sorted (possibleMatches s)"
  shows "sorted (possibleMatches (handleSubmit_then possibleWords s)) \<and>
         (\<forall>r. deleteGuess invoke index s = Inr r \<longrightarrow> sorted (possibleMatches (snd r))) \<and>
         sorted (possibleMatches (snd (addWordAsGuess word s)))"
proof -
  have a: "sorted (possibleMatches (handleSubmit_then possibleWords s))"
    by (simp add: handleSubmit_then_def)
  have b: "\<forall>r. deleteGuess invoke index s = Inr r \<longrightarrow> sorted (possibleMatches (snd r))"
    using assms
    by (auto simp: deleteGuess_def Let_def split: if_splits sum.splits
        elim!: readd_deleted_sorted [rotated])
  have c: "sorted (possibleMatches (snd (addWordAsGuess word s)))"
    using assms by (simp add: addWordAsGuess_def)
  show ?thesis using a b c by blast
qed

theorem possibleMatches_sorted_witness:
  "sorted (possibleMatches \<lparr>guesses = [], possibleMatches = [''cabin'', ''cigar'']\<rparr>) \<and>
   sorted (possibleMatches (handleSubmit_then [''crane'', ''cabin'']
             \<lparr>guesses = [], possibleMatches = [''cabin'', ''cigar'']\<rparr>)) \<and>
   sorted (possibleMatches (snd (addWordAsGuess ''cabin''
             \<lparr>guesses = [], possibleMatches = [''cabin'', ''cigar'']\<rparr>)))"
proof -
  let ?s = "\<lparr>guesses = [], possibleMatches = [''cabin'', ''cigar'']\<rparr>"
  have h: "sorted (possibleMatches ?s)" by simp
  show ?thesis
    using possibleMatches_sorted [OF h, of "[''crane'', ''cabin'']" _ _ "''cabin''"] h
    by blast
qed

end
